theory Spec2Isabelle
  imports Main
begin

section \<open>JavaScript values used by the model\<close>

text \<open>
  A JavaScript object with string keys is an association list in insertion order.
  Assigning to an existing key keeps its position, assigning to a new key appends it,
  \<open>delete\<close> removes the key.  (Keys that look like array indices, which JavaScript
  orders first, do not occur among the check and endpoint names of this program.)
\<close>

fun obj_get :: "(string \<times> 'v) list \<Rightarrow> string \<Rightarrow> 'v option" where
  "obj_get [] k = None"
| "obj_get ((k', v) # kvs) k = (if k' = k then Some v else obj_get kvs k)"

fun obj_set :: "string \<Rightarrow> 'v \<Rightarrow> (string \<times> 'v) list \<Rightarrow> (string \<times> 'v) list" where
  "obj_set k v [] = [(k, v)]"
| "obj_set k v ((k', v') # kvs) =
     (if k' = k then (k, v) # kvs else (k', v') # obj_set k v kvs)"

fun obj_delete :: "string \<Rightarrow> (string \<times> 'v) list \<Rightarrow> (string \<times> 'v) list" where
  "obj_delete k [] = []"
| "obj_delete k ((k', v') # kvs) =
     (if k' = k then obj_delete k kvs else (k', v') # obj_delete k kvs)"

text \<open>\<open>xs[i]\<close> of JavaScript: \<open>undefined\<close> (here \<open>None\<close>) out of range.\<close>

fun nth_opt :: "'a list \<Rightarrow> nat \<Rightarrow> 'a option" where
  "nth_opt [] i = None"
| "nth_opt (x # xs) 0 = Some x"
| "nth_opt (x # xs) (Suc i) = nth_opt xs i"

text \<open>\<open>String.prototype.startsWith\<close> and \<open>String.prototype.includes\<close>.\<close>

definition startsWith :: "string \<Rightarrow> string \<Rightarrow> bool" where
  "startsWith s p = (take (length p) s = p)"

fun js_includes :: "string \<Rightarrow> string \<Rightarrow> bool" where
  "js_includes [] sub = (sub = [])"
| "js_includes (c # cs) sub = (startsWith (c # cs) sub \<or> js_includes cs sub)"

datatype js_error = TypeError

section \<open>proxy-manager.js: connections, cooldown store, backoff levels\<close>

record connection =
  ctype :: string
  url :: "string option"

record cooldown =
  cooldown_until :: int
  reason :: string
  backoff_level :: "nat option"
  applied_at :: int
  error_message :: string
  duration_minutes :: "int option"
  duration_used :: "int option"

record cooldown_conn =
  cc_index :: nat
  cc_type :: string
  cc_url :: "string option"
  endpoint_cooldowns :: "(string \<times> cooldown) list"

record cooldown_durations =
  connection_reset :: int
  dur_timeout :: int
  dns_failure :: int
  socks_error :: int
  permanent :: int

text \<open>
  The fields of the \<open>ProxyManager\<close> class.  \<open>backoffLevels\<close> is the JavaScript
  \<open>Map\<close> keyed by the string \<open>connectionIndex:endpoint\<close>; the index is a number, so
  the key determines the pair and the map is keyed by the pair here.  The cooldown file
  is written from \<open>cooldowns_connections\<close> after every mutation (\<open>saveCooldowns\<close>, whose
  write errors are only logged), so the in-memory object is the state.
\<close>

record proxy_manager =
  config_connections :: "connection list"
  cooldowns_connections :: "cooldown_conn list"
  cooldownDurations :: cooldown_durations
  backoffSequence :: "int list"
  currentProxyIndex :: nat
  backoffLevels :: "nat \<times> string \<Rightarrow> nat option"

definition getProxyConnections :: "proxy_manager \<Rightarrow> connection list" where
  "getProxyConnections pm = filter (\<lambda>conn. ctype conn \<noteq> ''direct'') (config_connections pm)"

text \<open>\<open>Date.now()\<close> is the parameter \<open>now\<close> (milliseconds), one instant for each call.\<close>

definition isConnectionAvailableForEndpoint :: "int \<Rightarrow> proxy_manager \<Rightarrow> nat \<Rightarrow> string \<Rightarrow> bool" where
  "isConnectionAvailableForEndpoint now pm connectionIndex endpoint =
     (case nth_opt (cooldowns_connections pm) connectionIndex of
        None \<Rightarrow> False
      | Some conn \<Rightarrow>
          (case obj_get (endpoint_cooldowns conn) endpoint of
             None \<Rightarrow> True
           | Some cd \<Rightarrow> cooldown_until cd \<le> now))"

text \<open>
  \<open>this.backoffLevels.get(key) || 0\<close>: an absent level reads as 0.
\<close>

definition currentLevel :: "proxy_manager \<Rightarrow> nat \<Rightarrow> string \<Rightarrow> nat" where
  "currentLevel pm connectionIndex endpoint =
     (case backoffLevels pm (connectionIndex, endpoint) of None \<Rightarrow> 0 | Some l \<Rightarrow> l)"

definition set_cooldown :: "proxy_manager \<Rightarrow> nat \<Rightarrow> cooldown_conn \<Rightarrow> string \<Rightarrow> cooldown \<Rightarrow> proxy_manager" where
  "set_cooldown pm connectionIndex conn endpoint cd =
     pm\<lparr>cooldowns_connections :=
          (cooldowns_connections pm)
            [connectionIndex := conn\<lparr>endpoint_cooldowns := obj_set endpoint cd (endpoint_cooldowns conn)\<rparr>]\<rparr>"

text \<open>
  \<open>markConnectionCooldownForEndpoint\<close>.  The constructor replaces a missing or empty
  backoff sequence by the default one, so the sequence is a non-empty array when this
  runs; the level is \<open>Math.min(currentLevel + 1, length - 1)\<close>.  The branch
  \<open>newLevel >= length\<close> is the source's one-minute fallback.
\<close>

definition markConnectionCooldownForEndpoint ::
  "int \<Rightarrow> proxy_manager \<Rightarrow> nat \<Rightarrow> string \<Rightarrow> string \<Rightarrow> string \<Rightarrow> proxy_manager" where
  "markConnectionCooldownForEndpoint now pm connectionIndex endpoint errorType errorMessage =
     (case nth_opt (cooldowns_connections pm) connectionIndex of
        None \<Rightarrow> pm
      | Some conn \<Rightarrow>
          if errorType = ''429'' then
            (let newLevel = min (currentLevel pm connectionIndex endpoint + 1)
                                (length (backoffSequence pm) - 1);
                 pm1 = pm\<lparr>backoffLevels := (backoffLevels pm)((connectionIndex, endpoint) \<mapsto> newLevel)\<rparr>
             in if newLevel \<ge> length (backoffSequence pm) then
                  set_cooldown pm1 connectionIndex conn endpoint
                    \<lparr>cooldown_until = now + 1 * 60 * 1000, reason = ''429'',
                     backoff_level = Some newLevel, applied_at = now,
                     error_message = errorMessage @ '' (FALLBACK USED)'',
                     duration_minutes = Some 1, duration_used = None\<rparr>
                else
                  (let cooldownMinutes = backoffSequence pm ! newLevel
                   in set_cooldown pm1 connectionIndex conn endpoint
                        \<lparr>cooldown_until = now + cooldownMinutes * 60 * 1000, reason = ''429'',
                         backoff_level = Some newLevel, applied_at = now,
                         error_message = errorMessage,
                         duration_minutes = Some cooldownMinutes, duration_used = None\<rparr>))
          else
            (let cooldownDuration =
                   (if errorType = ''connection_error'' then connection_reset (cooldownDurations pm)
                    else if errorType = ''timeout'' then dur_timeout (cooldownDurations pm)
                    else if errorType = ''dns_failure'' then dns_failure (cooldownDurations pm)
                    else if errorType = ''socks_error'' then socks_error (cooldownDurations pm)
                    else 60000)
             in set_cooldown pm connectionIndex conn endpoint
                  \<lparr>cooldown_until = now + cooldownDuration, reason = errorType,
                   backoff_level = None, applied_at = now,
                   error_message = errorMessage,
                   duration_minutes = None, duration_used = Some cooldownDuration\<rparr>))"

definition resetBackoffOnSuccess :: "proxy_manager \<Rightarrow> nat \<Rightarrow> string \<Rightarrow> proxy_manager" where
  "resetBackoffOnSuccess pm connectionIndex endpoint =
     (case nth_opt (cooldowns_connections pm) connectionIndex of
        None \<Rightarrow> pm
      | Some conn \<Rightarrow>
          (let pm1 = (if backoffLevels pm (connectionIndex, endpoint) \<noteq> None
                      then pm\<lparr>backoffLevels := (backoffLevels pm)((connectionIndex, endpoint) := None)\<rparr>
                      else pm)
           in case obj_get (endpoint_cooldowns conn) endpoint of
                None \<Rightarrow> pm1
              | Some cd \<Rightarrow>
                  if reason cd = ''429'' then
                    pm1\<lparr>cooldowns_connections :=
                          (cooldowns_connections pm1)
                            [connectionIndex :=
                               conn\<lparr>endpoint_cooldowns := obj_delete endpoint (endpoint_cooldowns conn)\<rparr>]\<rparr>
                  else pm1))"

text \<open>The cooldown record of a cell, as the file holds it.\<close>

definition cell_record :: "proxy_manager \<Rightarrow> nat \<Rightarrow> string \<Rightarrow> cooldown option" where
  "cell_record pm connectionIndex endpoint =
     (case nth_opt (cooldowns_connections pm) connectionIndex of
        None \<Rightarrow> None
      | Some conn \<Rightarrow> obj_get (endpoint_cooldowns conn) endpoint)"

text \<open>\<open>k\<close> successive 429 marks on one cell, at the instants \<open>ts\<close>.\<close>

fun mark429s :: "proxy_manager \<Rightarrow> nat \<Rightarrow> string \<Rightarrow> int list \<Rightarrow> proxy_manager" where
  "mark429s pm c e [] = pm"
| "mark429s pm c e (t # ts) =
     mark429s (markConnectionCooldownForEndpoint t pm c e ''429'' ''Request failed with status code 429'') c e ts"

text \<open>A manager with the direct connection only, no cooldowns and no backoff state.\<close>

definition fresh_direct :: "int list \<Rightarrow> proxy_manager" where
  "fresh_direct sequence =
     \<lparr>config_connections = [\<lparr>ctype = ''direct'', url = None\<rparr>],
      cooldowns_connections =
        [\<lparr>cc_index = 0, cc_type = ''direct'', cc_url = None, endpoint_cooldowns = []\<rparr>],
      cooldownDurations =
        \<lparr>connection_reset = 600000, dur_timeout = 300000, dns_failure = 900000,
         socks_error = 900000, permanent = 86400000\<rparr>,
      backoffSequence = sequence,
      currentProxyIndex = 0,
      backoffLevels = Map.empty\<rparr>"

text \<open>
  \<open>getNextAvailableTimeForEndpoint\<close>: the loop over the cooldown connections keeps the
  smallest \<open>cooldown_until\<close> seen below the running value, which starts at
  \<open>Number.MAX_SAFE_INTEGER\<close>.
\<close>

definition MAX_SAFE_INTEGER :: int where
  "MAX_SAFE_INTEGER = 9007199254740991"

fun earliest_loop :: "string \<Rightarrow> cooldown_conn list \<Rightarrow> int \<Rightarrow> int" where
  "earliest_loop endpoint [] earliestTime = earliestTime"
| "earliest_loop endpoint (conn # conns) earliestTime =
     (case obj_get (endpoint_cooldowns conn) endpoint of
        None \<Rightarrow> earliest_loop endpoint conns earliestTime
      | Some cd \<Rightarrow>
          if cooldown_until cd < earliestTime
          then earliest_loop endpoint conns (cooldown_until cd)
          else earliest_loop endpoint conns earliestTime)"

definition getNextAvailableTimeForEndpoint :: "int \<Rightarrow> proxy_manager \<Rightarrow> string \<Rightarrow> int" where
  "getNextAvailableTimeForEndpoint now pm endpoint =
     (let earliestTime = earliest_loop endpoint (cooldowns_connections pm) MAX_SAFE_INTEGER
      in if earliestTime = MAX_SAFE_INTEGER then 0 else max 0 (earliestTime - now))"

text \<open>
  The expiry times of the records that the connections hold for an endpoint, and among
  them those the loop above can see.
\<close>

definition record_untils :: "string \<Rightarrow> cooldown_conn list \<Rightarrow> int list" where
  "record_untils endpoint conns =
     map cooldown_until (List.map_filter (\<lambda>conn. obj_get (endpoint_cooldowns conn) endpoint) conns)"

definition seen_untils :: "string \<Rightarrow> cooldown_conn list \<Rightarrow> int list" where
  "seen_untils endpoint conns = filter (\<lambda>u. u < MAX_SAFE_INTEGER) (record_untils endpoint conns)"

text \<open>
  \<open>getBestConnectionForEndpoint\<close>.  The \<open>for\<close> loop over the proxies is \<open>probe_proxies\<close>,
  which returns the proxy index found.  The function returns the connection read from
  \<open>config.connections\<close> (\<open>None\<close> is \<open>undefined\<close>) and its index; reading \<open>proxyConn.url\<close>
  of an undefined proxy entry throws.
\<close>

function probe_proxies :: "int \<Rightarrow> proxy_manager \<Rightarrow> string \<Rightarrow> nat \<Rightarrow> nat \<Rightarrow> nat option" where
  "probe_proxies now pm endpoint n i =
     (if i < n then
        (let proxyIndex = (currentProxyIndex pm + i) mod n;
             actualConnectionIndex = proxyIndex + 1
         in if isConnectionAvailableForEndpoint now pm actualConnectionIndex endpoint
            then Some proxyIndex
            else probe_proxies now pm endpoint n (i + 1))
      else None)"
  by pat_completeness auto
termination
  by (relation "measure (\<lambda>(now, pm, endpoint, n, i). n - i)") auto

definition getBestConnectionForEndpoint ::
  "int \<Rightarrow> proxy_manager \<Rightarrow> string
     \<Rightarrow> (js_error + (connection option \<times> nat) option) \<times> proxy_manager" where
  "getBestConnectionForEndpoint now pm endpoint =
     (if isConnectionAvailableForEndpoint now pm 0 endpoint
      then (Inr (Some (nth_opt (config_connections pm) 0, 0)), pm)
      else
        (let n = length (getProxyConnections pm)
         in if n = 0 then (Inr None, pm)
            else
              (case probe_proxies now pm endpoint n 0 of
                 None \<Rightarrow> (Inr None, pm)
               | Some proxyIndex \<Rightarrow>
                   (let actualConnectionIndex = proxyIndex + 1;
                        pm1 = pm\<lparr>currentProxyIndex := (proxyIndex + 1) mod n\<rparr>
                    in case nth_opt (config_connections pm) actualConnectionIndex of
                         None \<Rightarrow> (Inl TypeError, pm1)
                       | Some proxyConn \<Rightarrow> (Inr (Some (Some proxyConn, actualConnectionIndex)), pm1)))))"

definition getEndpointName :: "string \<Rightarrow> string" where
  "getEndpointName u =
     (if js_includes u ''GetFriendList'' then ''friends''
      else if js_includes u ''inventory'' then ''inventory''
      else if js_includes u ''GetSteamLevel'' then ''steam_level''
      else if js_includes u ''GetAnimatedAvatar'' then ''animated_avatar''
      else if js_includes u ''GetAvatarFrame'' then ''avatar_frame''
      else if js_includes u ''GetMiniProfileBackground'' then ''mini_profile_background''
      else if js_includes u ''GetProfileBackground'' then ''profile_background''
      else ''other'')"

definition getTimeoutForEndpoint :: "string \<Rightarrow> int" where
  "getTimeoutForEndpoint endpointName = (if endpointName = ''inventory'' then 25000 else 15000)"

text \<open>
  The configuration handed to \<open>axios.create\<close>: timeout, headers, the connection info
  and the SOCKS agent (the proxy URL it was built from, \<open>None\<close> for a direct call).
\<close>

record axios_config =
  timeout :: int
  headers :: "(string \<times> string) list"
  info_index :: nat
  info_type :: string
  info_endpointName :: string
  socksAgent :: "string option"

datatype axios_result = AllInCooldown int string | AxiosInstance axios_config

definition userAgent :: string where
  "userAgent = ''Mozilla/5.0 (Windows NT 10.0; Win64; x64) AppleWebKit/537.36 (KHTML, like Gecko) Chrome/111.0.0.0 Safari/537.36''"

definition baseConfig :: "string \<Rightarrow> connection \<Rightarrow> nat \<Rightarrow> axios_config" where
  "baseConfig endpointName conn index =
     \<lparr>timeout = getTimeoutForEndpoint endpointName,
      headers = [(''User-Agent'', userAgent)],
      info_index = index, info_type = ctype conn, info_endpointName = endpointName,
      socksAgent = None\<rparr>"

definition inventoryHeaders :: "string \<Rightarrow> (string \<times> string) list \<Rightarrow> (string \<times> string) list" where
  "inventoryHeaders endpointName hs =
     (if endpointName = ''inventory''
      then obj_set ''Sec-Fetch-Site'' ''same-origin''
             (obj_set ''Sec-Fetch-Mode'' ''cors'' (obj_set ''Sec-Fetch-Dest'' ''empty'' hs))
      else hs)"

text \<open>
  \<open>createAxiosInstance\<close>.  The constructor of the SOCKS agent belongs to a library; it is
  the parameter \<open>newAgent\<close>, which gives the message of the error it throws for a URL, if
  it throws.  A proxy whose URL is missing, empty or not a \<open>socks5://\<close> URL, or whose
  agent cannot be built, is cooled down as \<open>socks_error\<close> and the function calls itself
  again; a call that never returns is \<open>None\<close>.
\<close>

partial_function (option) createAxiosInstance ::
  "(string \<Rightarrow> string option) \<Rightarrow> int \<Rightarrow> proxy_manager \<Rightarrow> string
     \<Rightarrow> ((js_error + axios_result) \<times> proxy_manager) option" where
  "createAxiosInstance newAgent now pm endpoint =
     (let endpointName = getEndpointName endpoint
      in case getBestConnectionForEndpoint now pm endpointName of
           (Inl err, pm1) \<Rightarrow> Some (Inl err, pm1)
         | (Inr None, pm1) \<Rightarrow>
             Some (Inr (AllInCooldown (getNextAvailableTimeForEndpoint now pm1 endpointName) endpointName), pm1)
         | (Inr (Some (None, index)), pm1) \<Rightarrow> Some (Inl TypeError, pm1)
         | (Inr (Some (Some conn, index)), pm1) \<Rightarrow>
             if ctype conn = ''socks5'' then
               (case (case url conn of
                        None \<Rightarrow> Some ''Invalid SOCKS5 URL format''
                      | Some u \<Rightarrow>
                          if u = [] \<or> \<not> startsWith u ''socks5://''
                          then Some ''Invalid SOCKS5 URL format''
                          else newAgent u) of
                  Some message \<Rightarrow>
                    createAxiosInstance newAgent now
                      (markConnectionCooldownForEndpoint now pm1 index endpointName ''socks_error'' message)
                      endpoint
                | None \<Rightarrow>
                    Some (Inr (AxiosInstance
                      ((baseConfig endpointName conn index)
                         \<lparr>headers := inventoryHeaders endpointName (headers (baseConfig endpointName conn index)),
                          socksAgent := url conn\<rparr>)), pm1))
             else Some (Inr (AxiosInstance (baseConfig endpointName conn index)), pm1))"

text \<open>
  A manager with the direct connection and one proxy; the proxy holds a 429 record for
  the friends class that expires at instant 5000, the direct connection holds none.
\<close>

definition two_conns :: proxy_manager where
  "two_conns =
     \<lparr>config_connections = [\<lparr>ctype = ''direct'', url = None\<rparr>,
                             \<lparr>ctype = ''socks5'', url = Some ''socks5://u:p@h:1080''\<rparr>],
      cooldowns_connections =
        [\<lparr>cc_index = 0, cc_type = ''direct'', cc_url = None, endpoint_cooldowns = []\<rparr>,
         \<lparr>cc_index = 1, cc_type = ''socks5'', cc_url = Some ''socks5://u:p@h:1080'',
          endpoint_cooldowns =
            [(''friends'', \<lparr>cooldown_until = 5000, reason = ''429'', backoff_level = Some 1,
                applied_at = 0, error_message = ''Request failed with status code 429'',
                duration_minutes = Some 2, duration_used = None\<rparr>)]\<rparr>],
      cooldownDurations =
        \<lparr>connection_reset = 600000, dur_timeout = 300000, dns_failure = 900000,
         socks_error = 900000, permanent = 86400000\<rparr>,
      backoffSequence = [1, 2, 4],
      currentProxyIndex = 0,
      backoffLevels = Map.empty((1, ''friends'') \<mapsto> 1)\<rparr>"

text \<open>
  The slot of the proxy list that the round-robin loop probes in its \<open>i\<close>-th iteration.
\<close>

definition proxy_slot :: "proxy_manager \<Rightarrow> nat \<Rightarrow> nat" where
  "proxy_slot pm i = (currentProxyIndex pm + i) mod length (getProxyConnections pm)"

text \<open>
  Concrete managers and inputs: a SOCKS agent constructor that accepts every URL; a
  manager whose only backoff level belongs to a connection index that no longer exists
  (a proxy at index 1 was removed); a 429 record; the direct connection and two proxies,
  with the inventory class cooled down on the direct connection and on the first proxy;
  the direct connection after one 429 on the friends class at instant 1000.
\<close>

definition agentOk :: "string \<Rightarrow> string option" where
  "agentOk u = None"

definition stale_level :: proxy_manager where
  "stale_level = (fresh_direct [1, 2, 4])\<lparr>backoffLevels := Map.empty((1, ''friends'') \<mapsto> 1)\<rparr>"

definition steam_cd :: "int \<Rightarrow> cooldown" where
  "steam_cd until =
     \<lparr>cooldown_until = until, reason = ''429'', backoff_level = Some 1,
      applied_at = 0, error_message = ''Request failed with status code 429'',
      duration_minutes = Some 2, duration_used = None\<rparr>"

definition three_conns :: proxy_manager where
  "three_conns =
     \<lparr>config_connections = [\<lparr>ctype = ''direct'', url = None\<rparr>,
                             \<lparr>ctype = ''socks5'', url = Some ''socks5://u:p@h1:1080''\<rparr>,
                             \<lparr>ctype = ''socks5'', url = Some ''socks5://u:p@h2:1080''\<rparr>],
      cooldowns_connections =
        [\<lparr>cc_index = 0, cc_type = ''direct'', cc_url = None,
          endpoint_cooldowns = [(''inventory'', steam_cd 120000)]\<rparr>,
         \<lparr>cc_index = 1, cc_type = ''socks5'', cc_url = Some ''socks5://u:p@h1:1080'',
          endpoint_cooldowns = [(''inventory'', steam_cd 120000)]\<rparr>,
         \<lparr>cc_index = 2, cc_type = ''socks5'', cc_url = Some ''socks5://u:p@h2:1080'',
          endpoint_cooldowns = []\<rparr>],
      cooldownDurations =
        \<lparr>connection_reset = 600000, dur_timeout = 300000, dns_failure = 900000,
         socks_error = 900000, permanent = 86400000\<rparr>,
      backoffSequence = [1, 2, 4],
      currentProxyIndex = 0,
      backoffLevels = Map.empty((0, ''inventory'') \<mapsto> 1, (1, ''inventory'') \<mapsto> 1)\<rparr>"

definition friends_cooled :: proxy_manager where
  "friends_cooled = mark429s (fresh_direct [1, 2, 4]) 0 ''friends'' [1000]"

definition inventory_url :: string where
  "inventory_url = ''https://steamcommunity.com/inventory/76561198000000001/730/2''"

definition friends_url :: string where
  "friends_url = ''https://api.steampowered.com/ISteamUser/GetFriendList/v0001/?key=K&steamid=76561198000000001&relationship=friend''"

definition direct_inventory_config :: axios_config where
  "direct_inventory_config =
     \<lparr>timeout = 25000, headers = [(''User-Agent'', userAgent)],
      info_index = 0, info_type = ''direct'', info_endpointName = ''inventory'',
      socksAgent = None\<rparr>"

definition proxy_inventory_config :: axios_config where
  "proxy_inventory_config =
     \<lparr>timeout = 25000,
      headers = [(''User-Agent'', userAgent), (''Sec-Fetch-Dest'', ''empty''),
                 (''Sec-Fetch-Mode'', ''cors''), (''Sec-Fetch-Site'', ''same-origin'')],
      info_index = 2, info_type = ''socks5'', info_endpointName = ''inventory'',
      socksAgent = Some ''socks5://u:p@h2:1080''\<rparr>"

text \<open>What \<open>createAxiosInstance\<close> puts into a client for an endpoint class.\<close>

definition client_ok :: "string \<Rightarrow> axios_config \<Rightarrow> bool" where
  "client_ok endpointName cfg =
     (timeout cfg = (if endpointName = ''inventory'' then 25000 else 15000)
      \<and> obj_get (headers cfg) ''User-Agent'' = Some userAgent
      \<and> (if endpointName = ''inventory'' \<and> info_type cfg = ''socks5''
         then obj_get (headers cfg) ''Sec-Fetch-Dest'' = Some ''empty''
              \<and> obj_get (headers cfg) ''Sec-Fetch-Mode'' = Some ''cors''
              \<and> obj_get (headers cfg) ''Sec-Fetch-Site'' = Some ''same-origin''
         else headers cfg = [(''User-Agent'', userAgent)]))"

section \<open>queue-manager.js: the profile queue\<close>

text \<open>
  The queue file holds a JSON array of profiles; the model is the list it parses to (a
  missing file is created as the empty array before every locked write operation).
  \<open>checks\<close> is the object from check name to status, in key order.  A username
  argument can be any JavaScript value.  The operations are modelled as they run once
  the file lock is held.
\<close>

record profile =
  steam_id :: string
  username :: string
  timestamp :: int
  checks :: "(string \<times> string) list"

datatype js_value = JUndefined | JNull | JBool bool | JNumber int | JString string | JObject

datatype queue_error = SaveFailed

definition CHECK_NAMES :: "string list" where
  "CHECK_NAMES = [''animated_avatar'', ''avatar_frame'', ''mini_profile_background'',
                  ''profile_background'', ''steam_level'', ''friends'', ''csgo_inventory'']"

definition validStatuses :: "string list" where
  "validStatuses = [''to_check'', ''passed'', ''failed'', ''deferred'']"

definition newProfile :: "string \<Rightarrow> string \<Rightarrow> int \<Rightarrow> profile" where
  "newProfile steamId name now =
     \<lparr>steam_id = steamId, username = name, timestamp = now,
      checks = [(''animated_avatar'', ''to_check''), (''avatar_frame'', ''to_check''),
                (''mini_profile_background'', ''to_check''), (''profile_background'', ''to_check''),
                (''steam_level'', ''to_check''), (''friends'', ''to_check''),
                (''csgo_inventory'', ''to_check'')]\<rparr>"

text \<open>\<open>Array.prototype.findIndex\<close>; \<open>None\<close> is the result -1.\<close>

fun findIndex :: "('a \<Rightarrow> bool) \<Rightarrow> 'a list \<Rightarrow> nat option" where
  "findIndex P [] = None"
| "findIndex P (x # xs) = (if P x then Some 0 else map_option Suc (findIndex P xs))"

text \<open>
  \<open>addProfileToQueue\<close>, inside the file lock.  \<open>wr\<close> says whether the write of the queue
  file succeeds (a failed write throws), \<open>now\<close> is \<open>Date.now()\<close>, and \<open>apiService\<close> is
  \<open>None\<close> when no API service is passed, else the \<open>success\<close> and \<open>exists\<close> fields
  of the answer of \<open>checkSteamIdExists\<close>.  The result is the returned value (\<open>None\<close> is
  \<open>null\<close>) and the queue.
\<close>

definition addProfileToQueue ::
  "bool \<Rightarrow> int \<Rightarrow> (bool \<times> bool) option \<Rightarrow> string \<Rightarrow> js_value \<Rightarrow> profile list
     \<Rightarrow> queue_error + (profile option \<times> profile list)" where
  "addProfileToQueue wr now apiService steamId name profiles =
     (case find (\<lambda>p. steam_id p = steamId) profiles of
        Some existing \<Rightarrow> Inr (Some existing, profiles)
      | None \<Rightarrow>
          if (case apiService of None \<Rightarrow> False | Some (success, exists) \<Rightarrow> success \<and> exists)
          then Inr (None, profiles)
          else
            (case name of
               JString u \<Rightarrow>
                 if u = [] then Inr (None, profiles)
                 else
                   (let profile = newProfile steamId u now
                    in if wr then Inr (Some profile, profiles @ [profile]) else Inl SaveFailed)
             | _ \<Rightarrow> Inr (None, profiles)))"

text \<open>
  \<open>updateProfileCheck\<close> and \<open>removeProfileFromQueue\<close> return their boolean and the queue;
  a failed write is caught, the result is \<open>false\<close> and the file is taken as unwritten.
\<close>

definition updateProfileCheck ::
  "bool \<Rightarrow> string \<Rightarrow> string \<Rightarrow> string \<Rightarrow> profile list \<Rightarrow> bool \<times> profile list" where
  "updateProfileCheck wr steamId checkName status profiles =
     (case findIndex (\<lambda>p. steam_id p = steamId) profiles of
        None \<Rightarrow> (False, profiles)
      | Some profileIndex \<Rightarrow>
          if status \<notin> set validStatuses then (False, profiles)
          else if wr then
            (True, profiles[profileIndex :=
                     (profiles ! profileIndex)
                       \<lparr>checks := obj_set checkName status (checks (profiles ! profileIndex))\<rparr>])
          else (False, profiles))"


text \<open>
  \<open>getQueuedProfiles\<close> reads through \<open>readQueueProfiles\<close>, whose validation rejects the
  file when a profile has an empty \<open>steam_id\<close> or \<open>username\<close>; the result is then the
  empty array.
\<close>

definition getQueuedProfiles :: "profile list \<Rightarrow> profile list" where
  "getQueuedProfiles file =
     (if list_all (\<lambda>p. steam_id p \<noteq> [] \<and> username p \<noteq> []) file then file else [])"

definition hasToCheck :: "profile \<Rightarrow> bool" where
  "hasToCheck p = list_ex (\<lambda>status. status = ''to_check'') (map snd (checks p))"

definition hasDeferred :: "profile \<Rightarrow> bool" where
  "hasDeferred p = list_ex (\<lambda>status. status = ''deferred'') (map snd (checks p))"

text \<open>The two \<open>for\<close> loops of \<open>getNextProcessableProfile\<close>.\<close>

fun first_loop :: "profile list \<Rightarrow> profile option" where
  "first_loop [] = None"
| "first_loop (p # ps) =
     (if hasToCheck p then Some p
      else if \<not> hasToCheck p \<and> \<not> hasDeferred p then Some p
      else first_loop ps)"

fun second_loop :: "profile list \<Rightarrow> profile option" where
  "second_loop [] = None"
| "second_loop (p # ps) = (if hasDeferred p then Some p else second_loop ps)"

definition getNextProcessableProfile :: "profile list \<Rightarrow> profile option" where
  "getNextProcessableProfile file =
     (let profiles = getQueuedProfiles file
      in if length profiles = 0 then None
         else (case first_loop profiles of
                 Some p \<Rightarrow> Some p
               | None \<Rightarrow> second_loop profiles))"



definition all_terminal :: "profile \<Rightarrow> bool" where
  "all_terminal p = list_all (\<lambda>status. status = ''passed'' \<or> status = ''failed'') (map snd (checks p))"

definition statuses_valid :: "profile \<Rightarrow> bool" where
  "statuses_valid p = list_all (\<lambda>status. status \<in> set validStatuses) (map snd (checks p))"

text \<open>Concrete profiles: a new one, and one whose seven checks have all passed.\<close>

definition alice :: profile where
  "alice = newProfile ''76561198000000001'' ''alice'' 1000"

definition bob_done :: profile where
  "bob_done =
     \<lparr>steam_id = ''76561198000000002'', username = ''bob'', timestamp = 500,
      checks = [(''animated_avatar'', ''passed''), (''avatar_frame'', ''passed''),
                (''mini_profile_background'', ''passed''), (''profile_background'', ''passed''),
                (''steam_level'', ''passed''), (''friends'', ''passed''),
                (''csgo_inventory'', ''passed'')]\<rparr>"

definition carol_deferred :: profile where
  "carol_deferred =
     \<lparr>steam_id = ''76561198000000003'', username = ''carol'', timestamp = 700,
      checks = [(''animated_avatar'', ''passed''), (''avatar_frame'', ''passed''),
                (''mini_profile_background'', ''passed''), (''profile_background'', ''passed''),
                (''steam_level'', ''passed''), (''friends'', ''deferred''),
                (''csgo_inventory'', ''passed'')]\<rparr>"

text \<open>
  The usernames that \<open>addProfileToQueue\<close> rejects (\<open>!username\<close> or not of type string):
  every value but a non-empty string.
\<close>

definition invalid_username :: "js_value \<Rightarrow> bool" where
  "invalid_username name = (case name of JString u \<Rightarrow> u = [] | _ \<Rightarrow> True)"

section \<open>steam-validator.js and index.js: the steam level check and the check loop\<close>

text \<open>
  The result object of a validator check: \<open>success\<close>, \<open>passed\<close> and \<open>deferred\<close> (an
  absent field reads as false), \<open>details.note\<close> and \<open>nextAvailableIn\<close>.
\<close>

record check_result =
  success :: bool
  passed :: bool
  deferred :: bool
  details_note :: "string option"
  nextAvailableIn :: "int option"

text \<open>
  What \<open>makeApiRequest\<close> returns: the all-in-cooldown signal with the wait, a body, or a
  failure with its message.  The body of a \<open>GetSteamLevel\<close> answer is \<open>null\<close>, has no
  \<open>response\<close>, has an empty \<open>response\<close>, has a \<open>response\<close> with \<open>player_level\<close>, or has
  another non-empty \<open>response\<close>.
\<close>

datatype 'b request_result = AllInCooldownResult int | RequestSuccess 'b | RequestFailed string

datatype level_body = BodyNull | NoResponse | EmptyResponse | PlayerLevel int | OtherResponse



text \<open>
  The surroundings of the check loop: whether the API key is loaded, what the
  \<open>GetSteamLevel\<close> request returns for a profile, what the six other validator checks
  return (or that they throw), and whether writes of the queue file succeed.
\<close>

datatype check_outcome = Threw | Returned check_result

record validator_env =
  apiKey :: bool
  steamLevelRequest :: "string \<Rightarrow> level_body request_result"
  otherCheck :: "string \<Rightarrow> string \<Rightarrow> check_outcome"
  write_ok :: bool

text \<open>
  The state of the loop of \<open>processQueuedProfiles\<close>: the queue file, the flag
  \<open>isPrivateProfile\<close>, the validator's deferred set, and the checks handed to the
  validator so far (a check reaches the upstream only through its validator method).
\<close>

record sched_state =
  queue :: "profile list"
  isPrivateProfile :: bool
  deferredChecks :: "(string \<times> string) set"
  dispatched :: "string list"



definition setCheck :: "validator_env \<Rightarrow> string \<Rightarrow> string \<Rightarrow> string \<Rightarrow> sched_state \<Rightarrow> sched_state" where
  "setCheck env steamId checkName status s =
     s\<lparr>queue := snd (updateProfileCheck (write_ok env) steamId checkName status (queue s))\<rparr>"














definition queued :: "profile list \<Rightarrow> string \<Rightarrow> bool" where
  "queued q steamId = (find (\<lambda>p. steam_id p = steamId) q \<noteq> None)"

section \<open>Backoff progression\<close>

lemma nth_opt_eq: "nth_opt xs i = (if i < length xs then Some (xs ! i) else None)"
  by (induction xs i rule: nth_opt.induct) auto

lemma obj_get_obj_set: "obj_get (obj_set k v kvs) k' = (if k' = k then Some v else obj_get kvs k')"
  by (induction kvs) auto

lemma obj_get_obj_delete: "obj_get (obj_delete k kvs) k' = (if k' = k then None else obj_get kvs k')"
  by (induction kvs) auto

text \<open>
  One 429 on a cell of an existing connection raises the level by one, up to the last
  index of the sequence, and the record carries the minutes at the new level; so \<open>k\<close>
  successive 429s on a cell with no backoff state end at level \<open>min k (length - 1)\<close>.
\<close>

lemma mark_429_effect:
  assumes "c < length (cooldowns_connections pm)" "backoffSequence pm \<noteq> []"
  shows "currentLevel (markConnectionCooldownForEndpoint now pm c e ''429'' msg) c e
           = min (currentLevel pm c e + 1) (length (backoffSequence pm) - 1)"
    and "map_option duration_minutes
           (cell_record (markConnectionCooldownForEndpoint now pm c e ''429'' msg) c e)
           = Some (Some (backoffSequence pm ! min (currentLevel pm c e + 1) (length (backoffSequence pm) - 1)))"
    and "length (cooldowns_connections (markConnectionCooldownForEndpoint now pm c e ''429'' msg))
           = length (cooldowns_connections pm)"
    and "backoffSequence (markConnectionCooldownForEndpoint now pm c e ''429'' msg) = backoffSequence pm"
proof -
  have pos: "\<not> length (backoffSequence pm) \<le> length (backoffSequence pm) - Suc 0"
    using assms(2) by (cases "backoffSequence pm") auto
  show "currentLevel (markConnectionCooldownForEndpoint now pm c e ''429'' msg) c e
           = min (currentLevel pm c e + 1) (length (backoffSequence pm) - 1)"
    and "map_option duration_minutes
           (cell_record (markConnectionCooldownForEndpoint now pm c e ''429'' msg) c e)
           = Some (Some (backoffSequence pm ! min (currentLevel pm c e + 1) (length (backoffSequence pm) - 1)))"
    and "length (cooldowns_connections (markConnectionCooldownForEndpoint now pm c e ''429'' msg))
           = length (cooldowns_connections pm)"
    and "backoffSequence (markConnectionCooldownForEndpoint now pm c e ''429'' msg) = backoffSequence pm"
    using assms(1) pos
    by (auto simp: markConnectionCooldownForEndpoint_def nth_opt_eq Let_def currentLevel_def
        set_cooldown_def cell_record_def obj_get_obj_set min_def)
qed

lemma mark429s_level:
  assumes "c < length (cooldowns_connections pm)" "backoffSequence pm \<noteq> []"
  shows "currentLevel (mark429s pm c e ts) c e =
           (if ts = [] then currentLevel pm c e
            else min (currentLevel pm c e + length ts) (length (backoffSequence pm) - 1))"
  using assms
proof (induction ts arbitrary: pm)
  case Nil
  then show ?case by simp
next
  case (Cons t ts)
  let ?pm = "markConnectionCooldownForEndpoint t pm c e ''429'' ''Request failed with status code 429''"
  note m = mark_429_effect[OF Cons.prems, of t e "''Request failed with status code 429''"]
  have "currentLevel (mark429s ?pm c e ts) c e =
           (if ts = [] then currentLevel ?pm c e
            else min (currentLevel ?pm c e + length ts) (length (backoffSequence ?pm) - 1))"
    by (rule Cons.IH) (use m Cons.prems in simp_all)
  then show ?case using m by (auto simp: min_def)
qed

text \<open>
  C1.  The claim asks that the first 429 on a cell with no backoff state yields level 0
  and \<open>sequence[0]\<close> minutes.  On the sequence 1, 2, 4 the code yields level 1 and
  2 minutes for the first 429, and level 2 and 4 minutes for the second: an absent level
  reads as 0 and is incremented before the sequence is indexed, so \<open>sequence[0]\<close> is
  skipped.
\<close>

theorem first_429_skips_sequence_head:
  "currentLevel (mark429s (fresh_direct [1, 2, 4]) 0 ''friends'' [1000]) 0 ''friends'' = 1
   \<and> map_option duration_minutes
        (cell_record (mark429s (fresh_direct [1, 2, 4]) 0 ''friends'' [1000]) 0 ''friends'')
      = Some (Some 2)
   \<and> currentLevel (mark429s (fresh_direct [1, 2, 4]) 0 ''friends'' [1000, 200000]) 0 ''friends'' = 2
   \<and> map_option duration_minutes
        (cell_record (mark429s (fresh_direct [1, 2, 4]) 0 ''friends'' [1000, 200000]) 0 ''friends'')
      = Some (Some 4)"
  by (simp add: fresh_direct_def markConnectionCooldownForEndpoint_def currentLevel_def
      set_cooldown_def cell_record_def Let_def)

section \<open>Next available time of an endpoint class\<close>

lemma earliest_loop_fold:
  "earliest_loop e conns acc = fold min (record_untils e conns) acc"
proof (induction conns arbitrary: acc)
  case Nil
  then show ?case by (simp add: record_untils_def)
next
  case (Cons conn conns)
  show ?case
  proof (cases "obj_get (endpoint_cooldowns conn) e")
    case None
    then show ?thesis using Cons.IH[of acc]
      by (simp add: record_untils_def)
  next
    case (Some cd)
    have ru: "record_untils e (conn # conns) = cooldown_until cd # record_untils e conns"
      using Some by (simp add: record_untils_def)
    show ?thesis
      using Some Cons.IH[of acc] Cons.IH[of "cooldown_until cd"] ru
      by (simp add: min_def)
  qed
qed

lemma fold_min_Min: "fold min us (acc::int) = Min (insert acc (set us))"
  using Min.set_eq_fold[of acc us] by simp

lemma Min_insert_bound_filter:
  fixes M :: int
  shows "Min (insert M (set us)) =
           (if filter (\<lambda>u. u < M) us = [] then M else Min (set (filter (\<lambda>u. u < M) us)))"
proof (cases "filter (\<lambda>u. u < M) us = []")
  case True
  then have "\<forall>u\<in>set us. M \<le> u" by (auto simp: filter_empty_conv)
  then have "Min (insert M (set us)) = M" by (intro Min_eqI) auto
  then show ?thesis using True by simp
next
  case False
  let ?S = "set (filter (\<lambda>u. u < M) us)"
  have ne: "?S \<noteq> {}" using False by (auto simp: filter_empty_conv)
  have mem: "Min ?S \<in> ?S" using ne by (intro Min_in) auto
  have le: "\<And>y. y \<in> ?S \<Longrightarrow> Min ?S \<le> y" by (intro Min_le) auto
  have "Min (insert M (set us)) = Min ?S"
  proof (rule Min_eqI)
    show "finite (insert M (set us))" by simp
    show "Min ?S \<in> insert M (set us)" using mem by auto
    fix y assume y: "y \<in> insert M (set us)"
    show "Min ?S \<le> y"
    proof (cases "y < M")
      case True
      then have "y \<in> ?S" using y by auto
      then show ?thesis by (rule le)
    next
      case False
      then show ?thesis using mem by auto
    qed
  qed
  then show ?thesis using False by simp
qed

text \<open>
  C4, as the claim states it, fails: the direct connection of \<open>two_conns\<close> has no record
  for the friends class and is available at instant 1000, yet the function returns the
  4000 ms that remain on the proxy's record, not zero.
\<close>

theorem next_available_nonzero_while_direct_available:
  "isConnectionAvailableForEndpoint 1000 two_conns 0 ''friends''
   \<and> getNextAvailableTimeForEndpoint 1000 two_conns ''friends'' = 4000"
  by (simp add: two_conns_def isConnectionAvailableForEndpoint_def
      getNextAvailableTimeForEndpoint_def MAX_SAFE_INTEGER_def)

text \<open>
  C4, amended.  \<open>getNextAvailableTimeForEndpoint\<close> looks at the cooldown records only: it
  returns zero when no connection holds a record for the class (with an expiry below
  \<open>Number.MAX_SAFE_INTEGER\<close>), and otherwise the smallest remaining time
  \<open>cooldown_until - now\<close> over the connections that hold one, floored at zero.  So it is
  zero when the earliest record has expired, and it is the minimum remaining cooldown
  when no connection is available; a connection with no record does not make it zero.
\<close>

theorem next_available_time_is_min_over_records:
  "getNextAvailableTimeForEndpoint now pm e =
     (if seen_untils e (cooldowns_connections pm) = [] then 0
      else max 0 (Min (set (seen_untils e (cooldowns_connections pm))) - now))"
proof -
  let ?vs = "seen_untils e (cooldowns_connections pm)"
  have e: "earliest_loop e (cooldowns_connections pm) MAX_SAFE_INTEGER
        = (if ?vs = [] then MAX_SAFE_INTEGER else Min (set ?vs))"
    unfolding earliest_loop_fold fold_min_Min seen_untils_def by (rule Min_insert_bound_filter)
  have "?vs \<noteq> [] \<Longrightarrow> Min (set ?vs) < MAX_SAFE_INTEGER"
  proof -
    assume ne: "?vs \<noteq> []"
    then have "Min (set ?vs) \<in> set ?vs" by (intro Min_in) auto
    then show ?thesis by (simp add: seen_untils_def)
  qed
  then show ?thesis
    unfolding getNextAvailableTimeForEndpoint_def Let_def e by auto
qed

theorem next_available_time_witness:
  "getNextAvailableTimeForEndpoint 1000 two_conns ''friends'' = 4000
   \<and> getNextAvailableTimeForEndpoint 1000 (fresh_direct [1, 2, 4]) ''friends'' = 0"
  using next_available_time_is_min_over_records[of 1000 two_conns "''friends''"]
        next_available_time_is_min_over_records[of 1000 "fresh_direct [1, 2, 4]" "''friends''"]
  by (simp add: two_conns_def fresh_direct_def seen_untils_def record_untils_def MAX_SAFE_INTEGER_def)

section \<open>Resetting a cell on success\<close>

text \<open>
  C7, as the claim states it, fails: \<open>resetBackoffOnSuccess\<close> returns at once when the
  connection index has no entry in the cooldown store, so a backoff level kept for such
  an index (here index 1, whose proxy was removed) survives the call.
\<close>

theorem reset_keeps_level_of_missing_connection:
  "backoffLevels (resetBackoffOnSuccess stale_level 1 ''friends'') (1, ''friends'') = Some 1"
  by (simp add: stale_level_def fresh_direct_def resetBackoffOnSuccess_def)

text \<open>
  C7, amended.  After \<open>resetBackoffOnSuccess c e\<close> the backoff level of \<open>(c, e)\<close> is
  absent when \<open>c\<close> is a connection index that the cooldown store holds; for every
  \<open>c\<close> the cell holds no 429 record afterwards, and a record of the cell with another
  reason is unchanged.
\<close>

theorem reset_clears_429_state:
  "(c < length (cooldowns_connections pm) \<longrightarrow>
      backoffLevels (resetBackoffOnSuccess pm c e) (c, e) = None)
   \<and> (\<forall>cd. cell_record (resetBackoffOnSuccess pm c e) c e = Some cd \<longrightarrow> reason cd \<noteq> ''429'')
   \<and> (\<forall>cd. cell_record pm c e = Some cd \<and> reason cd \<noteq> ''429''
           \<longrightarrow> cell_record (resetBackoffOnSuccess pm c e) c e = Some cd)"
  by (auto simp: resetBackoffOnSuccess_def cell_record_def nth_opt_eq Let_def obj_get_obj_delete
           split: option.splits if_splits)

theorem reset_clears_429_state_witness:
  "(1::nat) < length (cooldowns_connections two_conns)
   \<and> backoffLevels two_conns (1, ''friends'') = Some 1
   \<and> map_option reason (cell_record two_conns 1 ''friends'') = Some ''429''
   \<and> backoffLevels (resetBackoffOnSuccess two_conns 1 ''friends'') (1, ''friends'') = None
   \<and> cell_record (resetBackoffOnSuccess two_conns 1 ''friends'') 1 ''friends'' = None"
  using reset_clears_429_state[of 1 two_conns "''friends''"]
  by (simp add: two_conns_def resetBackoffOnSuccess_def cell_record_def)

section \<open>Connection selection\<close>

declare probe_proxies.simps [simp del]

lemma probe_proxies_none:
  "(\<And>l. i \<le> l \<Longrightarrow> l < n \<Longrightarrow>
        \<not> isConnectionAvailableForEndpoint now pm ((currentProxyIndex pm + l) mod n + 1) e)
   \<Longrightarrow> probe_proxies now pm e n i = None"
proof (induction now pm e n i rule: probe_proxies.induct)
  case (1 now pm endpoint n i)
  show ?case
  proof (cases "i < n")
    case True
    have na: "\<not> isConnectionAvailableForEndpoint now pm ((currentProxyIndex pm + i) mod n + 1) endpoint"
      using "1.prems"[of i] True by simp
    have "probe_proxies now pm endpoint n (i + 1) = None"
      using "1.IH"[OF True refl refl] na "1.prems" by simp
    then show ?thesis using True na
      by (subst probe_proxies.simps) (simp add: Let_def)
  next
    case False
    then show ?thesis by (subst probe_proxies.simps) simp
  qed
qed

lemma probe_proxies_first:
  "i \<le> j \<Longrightarrow> j < n \<Longrightarrow>
   isConnectionAvailableForEndpoint now pm ((currentProxyIndex pm + j) mod n + 1) e \<Longrightarrow>
   (\<And>l. i \<le> l \<Longrightarrow> l < j \<Longrightarrow>
        \<not> isConnectionAvailableForEndpoint now pm ((currentProxyIndex pm + l) mod n + 1) e)
   \<Longrightarrow> probe_proxies now pm e n i = Some ((currentProxyIndex pm + j) mod n)"
proof (induction now pm e n i rule: probe_proxies.induct)
  case (1 now pm endpoint n i)
  have lt: "i < n" using "1.prems" by simp
  show ?case
  proof (cases "i = j")
    case True
    then show ?thesis using "1.prems" lt
      by (subst probe_proxies.simps) (simp add: Let_def)
  next
    case False
    then have ij: "i < j" using "1.prems" by simp
    have na: "\<not> isConnectionAvailableForEndpoint now pm ((currentProxyIndex pm + i) mod n + 1) endpoint"
      using "1.prems"(4)[of i] ij by simp
    have "probe_proxies now pm endpoint n (i + 1) = Some ((currentProxyIndex pm + j) mod n)"
      using "1.IH"[OF lt refl refl] na ij "1.prems" by simp
    then show ?thesis using lt na
      by (subst probe_proxies.simps) (simp add: Let_def)
  qed
qed

lemma unavailable_everywhere:
  assumes "\<forall>i<length (cooldowns_connections pm). \<not> isConnectionAvailableForEndpoint now pm i e"
  shows "\<not> isConnectionAvailableForEndpoint now pm i e"
proof (cases "i < length (cooldowns_connections pm)")
  case True
  then show ?thesis using assms by simp
next
  case False
  then show ?thesis by (simp add: isConnectionAvailableForEndpoint_def nth_opt_eq)
qed

lemma getBest_none:
  assumes "\<forall>i<length (cooldowns_connections pm). \<not> isConnectionAvailableForEndpoint now pm i e"
  shows "getBestConnectionForEndpoint now pm e = (Inr None, pm)"
proof -
  have "probe_proxies now pm e (length (getProxyConnections pm)) 0 = None"
    by (rule probe_proxies_none) (rule unavailable_everywhere[OF assms])
  then show ?thesis
    using unavailable_everywhere[OF assms, of 0]
    by (simp add: getBestConnectionForEndpoint_def Let_def)
qed

text \<open>
  C5.  (1) When the direct connection, index 0, is available for the class, it is chosen
  and the cursor stays.  (2) Otherwise the proxies are probed in round-robin order from
  the cursor: when the \<open>i\<close>-th probed slot is the first whose connection is available,
  that proxy is chosen and the cursor moves to the slot after it.  (3) When no
  connection is available for the class of a URL, \<open>createAxiosInstance\<close> returns the
  all-in-cooldown signal with the next available time of the class.
\<close>

theorem connection_selection:
  "(isConnectionAvailableForEndpoint now pm 0 e \<longrightarrow>
      getBestConnectionForEndpoint now pm e = (Inr (Some (nth_opt (config_connections pm) 0, 0)), pm))
   \<and> (\<not> isConnectionAvailableForEndpoint now pm 0 e
       \<and> length (config_connections pm) = length (cooldowns_connections pm)
       \<and> i < length (getProxyConnections pm)
       \<and> isConnectionAvailableForEndpoint now pm (proxy_slot pm i + 1) e
       \<and> (\<forall>l<i. \<not> isConnectionAvailableForEndpoint now pm (proxy_slot pm l + 1) e) \<longrightarrow>
      getBestConnectionForEndpoint now pm e =
        (Inr (Some (Some (config_connections pm ! (proxy_slot pm i + 1)), proxy_slot pm i + 1)),
         pm\<lparr>currentProxyIndex := (proxy_slot pm i + 1) mod length (getProxyConnections pm)\<rparr>))
   \<and> ((\<forall>c<length (cooldowns_connections pm). \<not> isConnectionAvailableForEndpoint now pm c (getEndpointName u)) \<longrightarrow>
      createAxiosInstance newAgent now pm u =
        Some (Inr (AllInCooldown (getNextAvailableTimeForEndpoint now pm (getEndpointName u)) (getEndpointName u)), pm))"
proof (intro conjI impI)
  assume "isConnectionAvailableForEndpoint now pm 0 e"
  then show "getBestConnectionForEndpoint now pm e = (Inr (Some (nth_opt (config_connections pm) 0, 0)), pm)"
    by (simp add: getBestConnectionForEndpoint_def)
next
  let ?n = "length (getProxyConnections pm)"
  assume a: "\<not> isConnectionAvailableForEndpoint now pm 0 e
       \<and> length (config_connections pm) = length (cooldowns_connections pm)
       \<and> i < ?n
       \<and> isConnectionAvailableForEndpoint now pm (proxy_slot pm i + 1) e
       \<and> (\<forall>l<i. \<not> isConnectionAvailableForEndpoint now pm (proxy_slot pm l + 1) e)"
  have p: "probe_proxies now pm e ?n 0 = Some (proxy_slot pm i)"
    unfolding proxy_slot_def
    by (rule probe_proxies_first) (use a in \<open>auto simp: proxy_slot_def\<close>)
  have "proxy_slot pm i + 1 < length (cooldowns_connections pm)"
    using a by (auto simp: isConnectionAvailableForEndpoint_def nth_opt_eq split: if_splits)
  then have "nth_opt (config_connections pm) (proxy_slot pm i + 1)
      = Some (config_connections pm ! (proxy_slot pm i + 1))"
    using a by (simp add: nth_opt_eq)
  then show "getBestConnectionForEndpoint now pm e =
        (Inr (Some (Some (config_connections pm ! (proxy_slot pm i + 1)), proxy_slot pm i + 1)),
         pm\<lparr>currentProxyIndex := (proxy_slot pm i + 1) mod ?n\<rparr>)"
    using a p by (auto simp: getBestConnectionForEndpoint_def Let_def)
next
  assume "\<forall>c<length (cooldowns_connections pm). \<not> isConnectionAvailableForEndpoint now pm c (getEndpointName u)"
  then have "getBestConnectionForEndpoint now pm (getEndpointName u) = (Inr None, pm)"
    by (rule getBest_none)
  then show "createAxiosInstance newAgent now pm u =
        Some (Inr (AllInCooldown (getNextAvailableTimeForEndpoint now pm (getEndpointName u)) (getEndpointName u)), pm)"
    by (subst createAxiosInstance.simps) (simp add: Let_def)
qed

lemma endpoint_of_inventory_url: "getEndpointName inventory_url = ''inventory''"
  by (simp add: getEndpointName_def inventory_url_def startsWith_def)

lemma endpoint_of_friends_url: "getEndpointName friends_url = ''friends''"
  by (simp add: getEndpointName_def friends_url_def startsWith_def)

lemma fresh_direct_available:
  "isConnectionAvailableForEndpoint 1000 (fresh_direct [1, 2, 4]) 0 ''friends''"
  by (simp add: isConnectionAvailableForEndpoint_def fresh_direct_def)

lemma three_conns_avail:
  "\<not> isConnectionAvailableForEndpoint 1000 three_conns 0 ''inventory''"
  "\<not> isConnectionAvailableForEndpoint 1000 three_conns 1 ''inventory''"
  "isConnectionAvailableForEndpoint 1000 three_conns 2 ''inventory''"
  "isConnectionAvailableForEndpoint 1000 three_conns (Suc (Suc 0)) ''inventory''"
  by (simp_all add: isConnectionAvailableForEndpoint_def three_conns_def steam_cd_def nth_opt_eq)

lemma three_conns_slots: "length (getProxyConnections three_conns) = 2"
  "proxy_slot three_conns 0 = 0" "proxy_slot three_conns 1 = 1"
  "length (config_connections three_conns) = 3" "length (cooldowns_connections three_conns) = 3"
  "config_connections three_conns ! 2 = \<lparr>ctype = ''socks5'', url = Some ''socks5://u:p@h2:1080''\<rparr>"
  "config_connections three_conns ! Suc (Suc 0) = \<lparr>ctype = ''socks5'', url = Some ''socks5://u:p@h2:1080''\<rparr>"
  by (simp_all add: proxy_slot_def getProxyConnections_def three_conns_def)

theorem connection_selection_witness:
  "getBestConnectionForEndpoint 1000 (fresh_direct [1, 2, 4]) ''friends''
     = (Inr (Some (Some \<lparr>ctype = ''direct'', url = None\<rparr>, 0)), fresh_direct [1, 2, 4])
   \<and> getBestConnectionForEndpoint 1000 three_conns ''inventory''
     = (Inr (Some (Some \<lparr>ctype = ''socks5'', url = Some ''socks5://u:p@h2:1080''\<rparr>, 2)),
        three_conns\<lparr>currentProxyIndex := 0\<rparr>)
   \<and> createAxiosInstance agentOk 2000 friends_cooled friends_url
     = Some (Inr (AllInCooldown 119000 ''friends''), friends_cooled)"
proof (intro conjI)
  show "getBestConnectionForEndpoint 1000 (fresh_direct [1, 2, 4]) ''friends''
     = (Inr (Some (Some \<lparr>ctype = ''direct'', url = None\<rparr>, 0)), fresh_direct [1, 2, 4])"
    using connection_selection[where now = 1000 and pm = "fresh_direct [1, 2, 4]" and e = "''friends''",
        THEN conjunct1] fresh_direct_available
    by (simp add: fresh_direct_def)
  show "getBestConnectionForEndpoint 1000 three_conns ''inventory''
     = (Inr (Some (Some \<lparr>ctype = ''socks5'', url = Some ''socks5://u:p@h2:1080''\<rparr>, 2)),
        three_conns\<lparr>currentProxyIndex := 0\<rparr>)"
    using connection_selection[where now = 1000 and pm = three_conns and e = "''inventory''" and i = 1,
        THEN conjunct2, THEN conjunct1] three_conns_avail three_conns_slots
    by simp
  have c: "cooldowns_connections friends_cooled =
        [\<lparr>cc_index = 0, cc_type = ''direct'', cc_url = None,
          endpoint_cooldowns = [(''friends'',
             \<lparr>cooldown_until = 121000, reason = ''429'', backoff_level = Some 1, applied_at = 1000,
              error_message = ''Request failed with status code 429'',
              duration_minutes = Some 2, duration_used = None\<rparr>)]\<rparr>]"
    by (simp add: friends_cooled_def fresh_direct_def markConnectionCooldownForEndpoint_def
        currentLevel_def set_cooldown_def Let_def)
  have na: "\<forall>c<length (cooldowns_connections friends_cooled).
      \<not> isConnectionAvailableForEndpoint 2000 friends_cooled c (getEndpointName friends_url)"
    by (simp add: c endpoint_of_friends_url isConnectionAvailableForEndpoint_def)
  have t: "getNextAvailableTimeForEndpoint 2000 friends_cooled ''friends'' = 119000"
    by (simp add: getNextAvailableTimeForEndpoint_def c MAX_SAFE_INTEGER_def)
  show "createAxiosInstance agentOk 2000 friends_cooled friends_url
     = Some (Inr (AllInCooldown 119000 ''friends''), friends_cooled)"
    using connection_selection[where now = 2000 and pm = friends_cooled and u = friends_url
        and newAgent = agentOk, THEN conjunct2, THEN conjunct2] na
    by (simp add: endpoint_of_friends_url t)
qed

section \<open>Client configuration\<close>

lemma createAxiosInstance_result:
  assumes "createAxiosInstance newAgent now pm u = Some y"
  shows "\<forall>cfg pm'. y = (Inr (AxiosInstance cfg), pm') \<longrightarrow> client_ok (getEndpointName u) cfg"
proof (rule createAxiosInstance.raw_induct
    [where P = "\<lambda>newAgent now pm u y.
       \<forall>cfg pm'. y = (Inr (AxiosInstance cfg), pm') \<longrightarrow> client_ok (getEndpointName u) cfg",
     OF _ assms])
  fix f :: "(string \<Rightarrow> string option) \<Rightarrow> int \<Rightarrow> proxy_manager \<Rightarrow> string
              \<Rightarrow> ((js_error + axios_result) \<times> proxy_manager) option"
  fix newAgent now pm u y
  assume IH: "\<And>newAgent now pm u y. f newAgent now pm u = Some y \<Longrightarrow>
     \<forall>cfg pm'. y = (Inr (AxiosInstance cfg), pm') \<longrightarrow> client_ok (getEndpointName u) cfg"
  assume step: "(let endpointName = getEndpointName u
      in case getBestConnectionForEndpoint now pm endpointName of
           (Inl err, pm1) \<Rightarrow> Some (Inl err, pm1)
         | (Inr None, pm1) \<Rightarrow>
             Some (Inr (AllInCooldown (getNextAvailableTimeForEndpoint now pm1 endpointName) endpointName), pm1)
         | (Inr (Some (None, index)), pm1) \<Rightarrow> Some (Inl TypeError, pm1)
         | (Inr (Some (Some conn, index)), pm1) \<Rightarrow>
             if ctype conn = ''socks5'' then
               (case (case url conn of
                        None \<Rightarrow> Some ''Invalid SOCKS5 URL format''
                      | Some u \<Rightarrow>
                          if u = [] \<or> \<not> startsWith u ''socks5://''
                          then Some ''Invalid SOCKS5 URL format''
                          else newAgent u) of
                  Some message \<Rightarrow>
                    f newAgent now
                      (markConnectionCooldownForEndpoint now pm1 index endpointName ''socks_error'' message)
                      u
                | None \<Rightarrow>
                    Some (Inr (AxiosInstance
                      ((baseConfig endpointName conn index)
                         \<lparr>headers := inventoryHeaders endpointName (headers (baseConfig endpointName conn index)),
                          socksAgent := url conn\<rparr>)), pm1))
             else Some (Inr (AxiosInstance (baseConfig endpointName conn index)), pm1)) = Some y"
  show "\<forall>cfg pm'. y = (Inr (AxiosInstance cfg), pm') \<longrightarrow> client_ok (getEndpointName u) cfg"
    using step IH
    by (auto simp: Let_def client_ok_def baseConfig_def inventoryHeaders_def getTimeoutForEndpoint_def
        split: prod.splits sum.splits option.splits if_splits)
qed

text \<open>
  C6, as the claim states it, fails: an inventory request that goes out on the direct
  connection carries the User-Agent header only; the \<open>Sec-Fetch-*\<close> headers are added
  inside the branch that configures a SOCKS5 proxy.
\<close>

theorem direct_inventory_request_has_no_sec_fetch_headers:
  "createAxiosInstance agentOk 1000 (fresh_direct [1, 2, 4]) inventory_url
     = Some (Inr (AxiosInstance direct_inventory_config), fresh_direct [1, 2, 4])
   \<and> obj_get (headers direct_inventory_config) ''Sec-Fetch-Dest'' = None
   \<and> obj_get (headers direct_inventory_config) ''Sec-Fetch-Mode'' = None
   \<and> obj_get (headers direct_inventory_config) ''Sec-Fetch-Site'' = None"
  by (subst createAxiosInstance.simps)
     (simp add: endpoint_of_inventory_url getBestConnectionForEndpoint_def
        isConnectionAvailableForEndpoint_def fresh_direct_def baseConfig_def
        getTimeoutForEndpoint_def direct_inventory_config_def)

text \<open>
  C6, amended.  Every client that \<open>createAxiosInstance\<close> returns has a 25-second timeout
  when the URL is of the inventory class and a 15-second timeout otherwise, and carries
  the User-Agent header; it carries the three \<open>Sec-Fetch-*\<close> headers when the URL is of
  the inventory class and the connection is a SOCKS5 proxy, and no header but the
  User-Agent otherwise.
\<close>

theorem client_configuration:
  assumes "createAxiosInstance newAgent now pm u = Some (Inr (AxiosInstance cfg), pm')"
  shows "timeout cfg = (if getEndpointName u = ''inventory'' then 25000 else 15000)
       \<and> obj_get (headers cfg) ''User-Agent'' = Some userAgent
       \<and> (if getEndpointName u = ''inventory'' \<and> info_type cfg = ''socks5''
          then obj_get (headers cfg) ''Sec-Fetch-Dest'' = Some ''empty''
               \<and> obj_get (headers cfg) ''Sec-Fetch-Mode'' = Some ''cors''
               \<and> obj_get (headers cfg) ''Sec-Fetch-Site'' = Some ''same-origin''
          else headers cfg = [(''User-Agent'', userAgent)])"
  using createAxiosInstance_result[OF assms] by (simp add: client_ok_def)

theorem client_configuration_witness:
  "createAxiosInstance agentOk 1000 three_conns inventory_url
     = Some (Inr (AxiosInstance proxy_inventory_config), three_conns\<lparr>currentProxyIndex := 0\<rparr>)
   \<and> timeout proxy_inventory_config = 25000
   \<and> obj_get (headers proxy_inventory_config) ''User-Agent'' = Some userAgent
   \<and> obj_get (headers proxy_inventory_config) ''Sec-Fetch-Dest'' = Some ''empty''
   \<and> obj_get (headers proxy_inventory_config) ''Sec-Fetch-Mode'' = Some ''cors''
   \<and> obj_get (headers proxy_inventory_config) ''Sec-Fetch-Site'' = Some ''same-origin''"
proof -
  have sel: "getBestConnectionForEndpoint 1000 three_conns ''inventory''
     = (Inr (Some (Some \<lparr>ctype = ''socks5'', url = Some ''socks5://u:p@h2:1080''\<rparr>, 2)),
        three_conns\<lparr>currentProxyIndex := 0\<rparr>)"
    by (simp add: getBestConnectionForEndpoint_def Let_def nth_opt_eq three_conns_def
        getProxyConnections_def isConnectionAvailableForEndpoint_def steam_cd_def
        probe_proxies.simps)
  have run: "createAxiosInstance agentOk 1000 three_conns inventory_url
     = Some (Inr (AxiosInstance proxy_inventory_config), three_conns\<lparr>currentProxyIndex := 0\<rparr>)"
    by (subst createAxiosInstance.simps)
       (simp add: endpoint_of_inventory_url sel startsWith_def agentOk_def baseConfig_def
          inventoryHeaders_def getTimeoutForEndpoint_def proxy_inventory_config_def)
  show ?thesis
    using client_configuration[OF run] run
    by (simp add: endpoint_of_inventory_url proxy_inventory_config_def)
qed

section \<open>The next processable profile\<close>

lemma first_loop_find: "first_loop ps = find (\<lambda>p. hasToCheck p \<or> \<not> hasDeferred p) ps"
  by (induction ps) auto

lemma second_loop_find: "second_loop ps = find hasDeferred ps"
  by (induction ps) auto

lemma terminal_statuses:
  "list_all (\<lambda>status. status \<in> set validStatuses) xs \<Longrightarrow>
   (\<not> list_ex (\<lambda>status. status = ''to_check'') xs \<and> \<not> list_ex (\<lambda>status. status = ''deferred'') xs)
     = list_all (\<lambda>status. status = ''passed'' \<or> status = ''failed'') xs"
  by (induction xs) (auto simp: validStatuses_def)

lemma terminal_iff:
  "statuses_valid p \<Longrightarrow> (\<not> hasToCheck p \<and> \<not> hasDeferred p) = all_terminal p"
  unfolding statuses_valid_def hasToCheck_def hasDeferred_def all_terminal_def
  by (rule terminal_statuses)

text \<open>
  C2, as the claim states it, fails: with a finished profile ahead of a profile that has
  checks to run, the finished profile is returned, not the first profile with a
  \<open>to_check\<close> check.  The first loop returns the first profile, in queue order, that
  has a \<open>to_check\<close> check or is complete.
\<close>

theorem next_processable_follows_queue_order:
  "getNextProcessableProfile [bob_done, alice] = Some bob_done
   \<and> \<not> hasToCheck bob_done \<and> hasToCheck alice"
  by (simp add: getNextProcessableProfile_def getQueuedProfiles_def bob_done_def alice_def
      newProfile_def hasToCheck_def hasDeferred_def)

text \<open>
  C2, amended.  Over the queue as the validating reader returns it,
  \<open>getNextProcessableProfile\<close> returns the first profile that has a check in status
  \<open>to_check\<close> or has no check in status \<open>to_check\<close> or \<open>deferred\<close>, whichever
  comes first in queue order; failing that, the first profile with a deferred check;
  and \<open>null\<close> when there is none.  For a profile whose statuses are all valid, having
  no \<open>to_check\<close> and no \<open>deferred\<close> check is having every check passed or failed.
\<close>

theorem next_processable_profile:
  "getNextProcessableProfile file =
     (case find (\<lambda>p. hasToCheck p \<or> \<not> hasDeferred p) (getQueuedProfiles file) of
        Some p \<Rightarrow> Some p
      | None \<Rightarrow> find hasDeferred (getQueuedProfiles file))
   \<and> (statuses_valid p \<longrightarrow> (\<not> hasToCheck p \<and> \<not> hasDeferred p) = all_terminal p)"
  using terminal_iff[of p]
  unfolding getNextProcessableProfile_def Let_def first_loop_find second_loop_find
  by (cases "getQueuedProfiles file") auto

theorem next_processable_profile_witness:
  "getNextProcessableProfile [carol_deferred, alice] = Some alice
   \<and> getNextProcessableProfile [carol_deferred] = Some carol_deferred
   \<and> getNextProcessableProfile [] = None
   \<and> statuses_valid bob_done \<and> all_terminal bob_done"
  using next_processable_profile[of "[carol_deferred, alice]" bob_done]
        next_processable_profile[of "[carol_deferred]" bob_done]
        next_processable_profile[of "[]" bob_done]
  by (simp add: getQueuedProfiles_def carol_deferred_def alice_def bob_done_def newProfile_def
      hasToCheck_def hasDeferred_def statuses_valid_def validStatuses_def all_terminal_def)

section \<open>The check names of a profile\<close>














section \<open>Adding a profile\<close>

lemma find_append_new:
  "find (\<lambda>p. steam_id p = sid) q = None \<Longrightarrow> steam_id x = sid \<Longrightarrow>
   find (\<lambda>p. steam_id p = sid) (q @ [x]) = Some x"
  by (induction q) (auto split: if_splits)

lemma filter_append_new:
  "find (\<lambda>p. steam_id p = sid) q = None \<Longrightarrow> steam_id x = sid \<Longrightarrow>
   filter (\<lambda>p. steam_id p = sid) (q @ [x]) = [x]"
  by (induction q) (auto split: if_splits)

lemma add_existing:
  "find (\<lambda>p. steam_id p = sid) q = Some p \<Longrightarrow>
   addProfileToQueue wr now api sid name q = Inr (Some p, q)"
  by (simp add: addProfileToQueue_def)

text \<open>
  C9, as the claim states it, fails in two ways.  In a queue that already holds the id,
  both calls return the existing profile, whose username is the one it had, not \<open>u\<close>.
  And a first call with the empty string as username adds nothing, so the second call
  creates the profile with \<open>u'\<close>.
\<close>

theorem add_keeps_the_queued_username:
  "addProfileToQueue True 2000 None ''76561198000000001'' (JString ''eve'') [alice]
     = Inr (Some alice, [alice])
   \<and> addProfileToQueue True 3000 None ''76561198000000001'' (JString ''mallory'') [alice]
     = Inr (Some alice, [alice])
   \<and> username alice = ''alice''
   \<and> addProfileToQueue True 2000 None ''76561198000000002'' (JString []) [] = Inr (None, [])
   \<and> addProfileToQueue True 3000 None ''76561198000000002'' (JString ''bob'') []
     = Inr (Some (newProfile ''76561198000000002'' ''bob'' 3000),
            [newProfile ''76561198000000002'' ''bob'' 3000])"
  by (simp add: addProfileToQueue_def alice_def newProfile_def Let_def)

text \<open>
  C9, amended.  For a queue that does not hold the id yet, a non-empty string \<open>u\<close> and
  no veto from the existence check of the API service, \<open>add(id, u)\<close> (whose write
  succeeds) appends a profile with username \<open>u\<close> and all seven checks in
  \<open>to_check\<close>; a following \<open>add(id, u')\<close>, whatever its arguments, returns that
  profile and leaves the queue as it is, with exactly one profile of that id.
\<close>

theorem add_idempotent:
  assumes "find (\<lambda>p. steam_id p = sid) q = None" and "u \<noteq> []" and "api \<noteq> Some (True, True)"
  shows "addProfileToQueue True now api sid (JString u) q
           = Inr (Some (newProfile sid u now), q @ [newProfile sid u now])
       \<and> addProfileToQueue wr' now' api' sid u' (q @ [newProfile sid u now])
           = Inr (Some (newProfile sid u now), q @ [newProfile sid u now])
       \<and> filter (\<lambda>p. steam_id p = sid) (q @ [newProfile sid u now]) = [newProfile sid u now]
       \<and> username (newProfile sid u now) = u
       \<and> map fst (checks (newProfile sid u now)) = CHECK_NAMES
       \<and> list_all (\<lambda>status. status = ''to_check'') (map snd (checks (newProfile sid u now)))"
proof -
  have sid: "steam_id (newProfile sid u now) = sid" by (simp add: newProfile_def)
  have "addProfileToQueue True now api sid (JString u) q
           = Inr (Some (newProfile sid u now), q @ [newProfile sid u now])"
    using assms by (auto simp: addProfileToQueue_def Let_def split: option.splits)
  moreover have "addProfileToQueue wr' now' api' sid u' (q @ [newProfile sid u now])
           = Inr (Some (newProfile sid u now), q @ [newProfile sid u now])"
    by (rule add_existing) (rule find_append_new[OF assms(1) sid])
  moreover have "filter (\<lambda>p. steam_id p = sid) (q @ [newProfile sid u now]) = [newProfile sid u now]"
    by (rule filter_append_new[OF assms(1) sid])
  ultimately show ?thesis by (simp add: newProfile_def CHECK_NAMES_def)
qed

theorem add_idempotent_witness:
  "addProfileToQueue True 2000 None ''76561198000000002'' (JString ''bob'') [alice]
     = Inr (Some (newProfile ''76561198000000002'' ''bob'' 2000),
            [alice, newProfile ''76561198000000002'' ''bob'' 2000])
   \<and> addProfileToQueue True 3000 None ''76561198000000002'' (JString ''robert'')
        [alice, newProfile ''76561198000000002'' ''bob'' 2000]
     = Inr (Some (newProfile ''76561198000000002'' ''bob'' 2000),
            [alice, newProfile ''76561198000000002'' ''bob'' 2000])
   \<and> filter (\<lambda>p. steam_id p = ''76561198000000002'')
        [alice, newProfile ''76561198000000002'' ''bob'' 2000]
     = [newProfile ''76561198000000002'' ''bob'' 2000]
   \<and> username (newProfile ''76561198000000002'' ''bob'' 2000) = ''bob''"
proof -
  have absent: "find (\<lambda>p. steam_id p = ''76561198000000002'') [alice] = None"
    by (simp add: alice_def newProfile_def)
  show ?thesis
    using add_idempotent[OF absent, of "''bob''" None 2000 True 3000 None "JString ''robert''"]
    by simp
qed

text \<open>
  C10, as the claim states it, fails: the lookup of the id comes before the validation
  of the username, so for an id that is already queued the call returns the existing
  profile, not \<open>null\<close>.
\<close>

theorem invalid_username_returns_queued_profile:
  "addProfileToQueue True 2000 None ''76561198000000001'' JNull [alice] = Inr (Some alice, [alice])"
  by (simp add: addProfileToQueue_def alice_def newProfile_def Let_def)

text \<open>
  C10, amended.  With a username that is missing, \<open>null\<close>, not a string or the empty
  string, \<open>addProfileToQueue\<close> never writes: the queue is unchanged, and the result is
  \<open>null\<close> unless the id is already queued, in which case it is the queued profile.
\<close>

theorem invalid_username_rejected:
  assumes "invalid_username name"
  shows "addProfileToQueue wr now api sid name q = Inr (find (\<lambda>p. steam_id p = sid) q, q)"
  using assms
  by (auto simp: addProfileToQueue_def invalid_username_def split: option.splits js_value.splits)

theorem invalid_username_rejected_witness:
  "invalid_username JNull \<and> invalid_username JUndefined \<and> invalid_username (JNumber 7)
   \<and> invalid_username (JString [])
   \<and> addProfileToQueue True 2000 None ''76561198000000002'' JNull [alice] = Inr (None, [alice])
   \<and> addProfileToQueue True 2000 None ''76561198000000002'' (JNumber 7) [alice] = Inr (None, [alice])
   \<and> addProfileToQueue True 2000 None ''76561198000000001'' JUndefined [alice] = Inr (Some alice, [alice])"
proof -
  have i: "invalid_username JNull" "invalid_username JUndefined" "invalid_username (JNumber 7)"
    "invalid_username (JString [])"
    by (simp_all add: invalid_username_def)
  show ?thesis
    using invalid_username_rejected[OF i(1), of True 2000 None "''76561198000000002''" "[alice]"]
          invalid_username_rejected[OF i(3), of True 2000 None "''76561198000000002''" "[alice]"]
          invalid_username_rejected[OF i(2), of True 2000 None "''76561198000000001''" "[alice]"]
          i
    by (simp add: alice_def newProfile_def)
qed

section \<open>The private profile short circuit\<close>


lemma find_findIndex_None: "find P q = None \<Longrightarrow> findIndex P q = None"
  by (induction q) (auto split: if_splits)


lemma update_unqueued:
  "\<not> queued q sid \<Longrightarrow> snd (updateProfileCheck wr sid c status q) = q"
  by (simp add: updateProfileCheck_def queued_def find_findIndex_None)

lemma setCheck_fields [simp]:
  "isPrivateProfile (setCheck env sid c status s) = isPrivateProfile s"
  "dispatched (setCheck env sid c status s) = dispatched s"
  by (simp_all add: setCheck_def)












end
